theory Spec2Isabelle
  imports Complex_Main
begin

section \<open>Python values, exceptions and strings\<close>

text \<open>
  The three modules (\<^verbatim>\<open>vyos.py\<close>, \<^verbatim>\<open>virsh.py\<close>, \<^verbatim>\<open>time_functions.py\<close>) are Python 2
  execution modules. A call either returns a value or raises; a raise is the \<open>Inl\<close> branch
  of a sum. \<open>SystemExit\<close> is what \<^verbatim>\<open>sys.exit(1)\<close> raises.
\<close>

datatype exn =
    AttributeError string
  | IndexError
  | OverflowError
  | VyOSError string
  | ConfigError string
  | CommitError string
  | ConfigLocked string
  | PexpectError
  | LibvirtError
  | ReError
  | SystemExit int

text \<open>The class hierarchy \<^verbatim>\<open>VyOSError > ConfigError > CommitError > ConfigLocked\<close>.\<close>

fun isinstance_ConfigError :: "exn \<Rightarrow> bool" where
  "isinstance_ConfigError (ConfigError m) = True"
| "isinstance_ConfigError (CommitError m) = True"
| "isinstance_ConfigError (ConfigLocked m) = True"
| "isinstance_ConfigError e = False"

fun isinstance_VyOSError :: "exn \<Rightarrow> bool" where
  "isinstance_VyOSError (VyOSError m) = True"
| "isinstance_VyOSError e = isinstance_ConfigError e"

datatype pyval =
    PNone
  | PBool bool
  | PStr string
  | PList "string list"
  | PDict "(string \<times> pyval) list"
  | PSession
  | PMethod string

text \<open>An object is its attribute dictionary.\<close>

type_synonym pyobj = "string \<rightharpoonup> pyval"

fun truthy :: "pyval \<Rightarrow> bool" where
  "truthy PNone = False"
| "truthy (PBool b) = b"
| "truthy (PStr s) = (s \<noteq> [])"
| "truthy (PList xs) = (xs \<noteq> [])"
| "truthy (PDict kvs) = (kvs \<noteq> [])"
| "truthy PSession = True"
| "truthy (PMethod m) = True"

text \<open>\<^verbatim>\<open>s.startswith(p)\<close>, and \<^verbatim>\<open>s.startswith((p1, ..., pn))\<close> for a tuple of prefixes.\<close>

definition startswith :: "string \<Rightarrow> string \<Rightarrow> bool" where
  "startswith p s = (take (length p) s = p)"

definition startswith_any :: "string list \<Rightarrow> string \<Rightarrow> bool" where
  "startswith_any ps s = list_ex (\<lambda>p. startswith p s) ps"

text \<open>
  \<^verbatim>\<open>str.splitlines()\<close> on a Python 2 byte string: a line ends at \<^verbatim>\<open>\n\<close>, \<^verbatim>\<open>\r\<close> or
  \<^verbatim>\<open>\r\n\<close>; text after the last line break is a last line, and a trailing line break
  starts no empty line. The first argument is the current line, reversed.
\<close>

fun splitlines_from :: "string \<Rightarrow> string \<Rightarrow> string list" where
  "splitlines_from acc [] = (if acc = [] then [] else [rev acc])"
| "splitlines_from acc [c] =
     (if c = CHR 0x0A \<or> c = CHR 0x0D then [rev acc] else [rev (c # acc)])"
| "splitlines_from acc (c # d # cs) =
     (if c = CHR 0x0A then rev acc # splitlines_from [] (d # cs)
      else if c = CHR 0x0D then
        (if d = CHR 0x0A then rev acc # splitlines_from [] cs
         else rev acc # splitlines_from [] (d # cs))
      else splitlines_from (c # acc) (d # cs))"

definition splitlines :: "string \<Rightarrow> string list" where
  "splitlines s = splitlines_from [] s"

text \<open>\<^verbatim>\<open>s.rstrip(chars)\<close>: drops the trailing characters that occur in \<open>chars\<close>.\<close>

definition rstrip :: "string \<Rightarrow> string \<Rightarrow> string" where
  "rstrip chars s = rev (dropWhile (\<lambda>c. c \<in> set chars) (rev s))"

section \<open>vyos.py: the router session\<close>

text \<open>
  The \<^verbatim>\<open>pexpect\<close> child is outside the repository. What the module does to it is recorded
  as a trace of events; what it answers is a parameter: whether \<^verbatim>\<open>pexpect.spawn\<close> raises,
  and the text \<^verbatim>\<open>session.before\<close> holds after \<^verbatim>\<open>expect(pexpect.EOF)\<close>, as a function of the
  lines sent to the child (\<open>None\<close>: \<^verbatim>\<open>expect\<close> raises, e.g. on its timeout).
\<close>

datatype event = Spawn string | SendLine string | ExpectEOF | Close | Terminate

record pexpect_env =
  spawn_fails :: bool
  before :: "string list \<Rightarrow> string option"

fun is_Spawn :: "event \<Rightarrow> bool" where
  "is_Spawn (Spawn c) = True"
| "is_Spawn e = False"

fun line_of :: "event \<Rightarrow> string list" where
  "line_of (SendLine l) = [l]"
| "line_of e = []"

text \<open>The lines sent to the child spawned last.\<close>

definition sent_lines :: "event list \<Rightarrow> string list" where
  "sent_lines tr = concat (map line_of (rev (takeWhile (\<lambda>e. \<not> is_Spawn e) (rev tr))))"

text \<open>
  Attribute lookup on a \<^verbatim>\<open>Router\<close> instance: the instance dictionary first, then the
  names the class body defines. Everything else the instance inherits from \<^verbatim>\<open>object\<close>
  has a double-underscore name.
\<close>

definition Router_class_attrs :: "string list" where
  "Router_class_attrs = [''__init__'', ''execute_command'', ''status'', ''close_session'']"

definition getattr_Router :: "pyobj \<Rightarrow> string \<Rightarrow> exn + pyval" where
  "getattr_Router self name =
     (case self name of
        Some v \<Rightarrow> Inr v
      | None \<Rightarrow> if name \<in> set Router_class_attrs then Inr (PMethod name)
                else Inl (AttributeError name))"

text \<open>
  \<^verbatim>\<open>Router.__init__\<close>: three flags and the codec are assigned, then the child is spawned
  and two lines are sent.
\<close>

definition Router_init :: "pexpect_env \<Rightarrow> event list \<Rightarrow> (exn + pyobj) \<times> event list" where
  "Router_init env tr =
     (let self = Map.empty(''session_modified'' \<mapsto> PBool False);
          self = self(''session_saved'' \<mapsto> PBool True);
          self = self(''conf_mode'' \<mapsto> PBool False);
          self = self(''codec'' \<mapsto> PStr ''utf8'')
      in if spawn_fails env then (Inl PexpectError, tr)
         else (Inr (self(''session'' \<mapsto> PSession)),
               tr @ [Spawn ''su - vyos'', SendLine ''export TERM=xterm'',
                     SendLine ''set terminal length 0'']))"

text \<open>
  \<^verbatim>\<open>for x in range(1, stop, 1): del(output[0])\<close> runs \<open>stop - 1\<close> times (no time when
  \<open>stop \<le> 1\<close>); \<^verbatim>\<open>del\<close> on an empty list raises \<^verbatim>\<open>IndexError\<close>.
\<close>

definition range_len :: "int \<Rightarrow> int \<Rightarrow> nat" where
  "range_len start stop = nat (stop - start)"

fun del_top :: "nat \<Rightarrow> 'a list \<Rightarrow> exn + 'a list" where
  "del_top 0 output = Inr output"
| "del_top (Suc k) [] = Inl IndexError"
| "del_top (Suc k) (x # output) = del_top k output"

fun del_bottom :: "nat \<Rightarrow> 'a list \<Rightarrow> exn + 'a list" where
  "del_bottom 0 output = Inr output"
| "del_bottom (Suc k) output =
     (if output = [] then Inl IndexError else del_bottom k (butlast output))"

text \<open>The tail of \<^verbatim>\<open>execute_command\<close>, from the raw text to the returned list.\<close>

definition trim_output :: "int \<Rightarrow> int \<Rightarrow> string \<Rightarrow> exn + string list" where
  "trim_output remove_top_lines remove_bottom_lines raw =
     (let output = map (rstrip ''?[m'') (splitlines raw)
      in if length output \<ge> 3 then
           (case del_top (range_len 1 remove_top_lines) output of
              Inl e \<Rightarrow> Inl e
            | Inr output \<Rightarrow> del_bottom (range_len 1 remove_bottom_lines) output)
         else Inr output)"

definition execute_command ::
  "pexpect_env \<Rightarrow> pyobj \<Rightarrow> string \<Rightarrow> bool \<Rightarrow> event list \<Rightarrow> (exn + string list) \<times> event list" where
  "execute_command env self command config_mode_required tr =
     (case getattr_Router self ''session'' of
        Inl e \<Rightarrow> (Inl e, tr)
      | Inr session \<Rightarrow>
          let remove_top_lines = (if config_mode_required then 1 + 3 else 1);
              remove_bottom_lines = (if config_mode_required then 2 + 1 else 2);
              tr = tr @ (if config_mode_required
                         then [SendLine ''config'', SendLine command, SendLine ''commit'',
                               SendLine ''save'', SendLine ''exit'']
                         else [SendLine command]);
              tr = tr @ [SendLine ''exit'', ExpectEOF]
          in (case before env (sent_lines tr) of
                None \<Rightarrow> (Inl PexpectError, tr)
              | Some raw \<Rightarrow> (trim_output remove_top_lines remove_bottom_lines raw, tr)))"

text \<open>\<^verbatim>\<open>Router.status\<close>: the dictionary display reads four attributes, left to right.\<close>

definition status :: "pyobj \<Rightarrow> exn + pyval" where
  "status self =
     (case getattr_Router self ''logged_in'' of
        Inl e \<Rightarrow> Inl e
      | Inr l \<Rightarrow>
          (case getattr_Router self ''session_modified'' of
             Inl e \<Rightarrow> Inl e
           | Inr m \<Rightarrow>
               (case getattr_Router self ''session_saved'' of
                  Inl e \<Rightarrow> Inl e
                | Inr s \<Rightarrow>
                    (case getattr_Router self ''conf_mode'' of
                       Inl e \<Rightarrow> Inl e
                     | Inr c \<Rightarrow>
                         Inr (PDict [(''logged_in'', l), (''session_modified'', m),
                                     (''session_saved'', s), (''conf_mode'', c)])))))"

definition close_session :: "pyobj \<Rightarrow> event list \<Rightarrow> (exn + unit) \<times> event list" where
  "close_session self tr =
     (case getattr_Router self ''session'' of
        Inl e \<Rightarrow> (Inl e, tr)
      | Inr session \<Rightarrow> (Inr (), tr @ [Close, Terminate]))"

text \<open>
  \<^verbatim>\<open>run_op_mode_command\<close>. The rejected branch returns its message as a string (the word
  \<^verbatim>\<open>show\<close> stands in double quotes, character \<open>0x22\<close>); it does not raise. The format
  \<^verbatim>\<open>{0} {1}\<close> puts a space between the prefix and the command, also when the prefix is
  empty.
\<close>

definition show_only_message :: string where
  "show_only_message =
     ''Op mode commands must begin with '' @ [CHR 0x22] @ ''show'' @ [CHR 0x22] @ ''.''"

definition run_op_mode_command ::
  "pexpect_env \<Rightarrow> string \<Rightarrow> event list \<Rightarrow> (exn + pyval) \<times> event list" where
  "run_op_mode_command env command tr =
     (if startswith ''show'' command then
        (case Router_init env tr of
           (Inl e, tr) \<Rightarrow> (Inl e, tr)
         | (Inr router, tr) \<Rightarrow>
             (case getattr_Router router ''conf_mode'' of
                Inl e \<Rightarrow> (Inl e, tr)
              | Inr conf_mode \<Rightarrow>
                  (let prefix = (if truthy conf_mode then ''run'' else [])
                   in (case execute_command env router (prefix @ '' '' @ command) False tr of
                         (Inl e, tr) \<Rightarrow> (Inl e, tr)
                       | (Inr output, tr) \<Rightarrow>
                           (case close_session router tr of
                              (Inl e, tr) \<Rightarrow> (Inl e, tr)
                            | (Inr u, tr) \<Rightarrow> (Inr (PList output), tr))))))
      else (Inr (PStr show_only_message), tr))"

definition config_allow_list :: "string list" where
  "config_allow_list =
     [''confirm'', ''comment'', ''compare'', ''copy'', ''delete'', ''discard'', ''edit'',
      ''load'', ''loadkey'', ''merge'', ''rename'', ''rollback'', ''run'', ''set'', ''show'']"

text \<open>
  \<^verbatim>\<open>run_config_mode_command\<close>. There is no \<^verbatim>\<open>else\<close>: a command outside the allow-list
  falls off the end of the function, which returns \<^verbatim>\<open>None\<close>. \<^verbatim>\<open>save_changes\<close> is not read.
\<close>

definition run_config_mode_command ::
  "pexpect_env \<Rightarrow> string \<Rightarrow> bool \<Rightarrow> event list \<Rightarrow> (exn + pyval) \<times> event list" where
  "run_config_mode_command env command save_changes tr =
     (if startswith_any config_allow_list command then
        (case Router_init env tr of
           (Inl e, tr) \<Rightarrow> (Inl e, tr)
         | (Inr router, tr) \<Rightarrow>
             (case execute_command env router command True tr of
                (Inl e, tr) \<Rightarrow> (Inl e, tr)
              | (Inr output, tr) \<Rightarrow>
                  (case close_session router tr of
                     (Inl e, tr) \<Rightarrow> (Inl e, tr)
                   | (Inr u, tr) \<Rightarrow> (Inr (PList output), tr))))
      else (Inr PNone, tr))"

subsection \<open>The session operations not wired to an entry point\<close>

text \<open>
  \<^verbatim>\<open>_save\<close>, \<^verbatim>\<open>_exit\<close> and \<^verbatim>\<open>_set\<close> are module-level functions taking \<^verbatim>\<open>self\<close>. Outside a class
  body no name is mangled, so they read and write the attributes \<^verbatim>\<open>__conf_mode\<close>,
  \<^verbatim>\<open>__session_modified\<close> and \<^verbatim>\<open>__session_saved\<close> of \<^verbatim>\<open>self\<close>. The method
  \<^verbatim>\<open>self.__execute_command\<close> is defined nowhere in the module: it is the parameter \<open>xc\<close>,
  which returns the command's output as one string or raises. Each function returns its
  outcome, the object afterwards, and the commands it passed to \<open>xc\<close>, in order.
\<close>

type_synonym transport = "string \<Rightarrow> exn + string"

definition is_space :: "char \<Rightarrow> bool" where
  "is_space c = (c \<in> set [CHR '' '', CHR 0x09, CHR 0x0A, CHR 0x0B, CHR 0x0C, CHR 0x0D])"



text \<open>\<^verbatim>\<open>_save(self)\<close>.\<close>

definition vyos_save :: "transport \<Rightarrow> pyobj \<Rightarrow> (exn + pyval) \<times> pyobj \<times> string list" where
  "vyos_save xc self =
     (case getattr_Router self ''__conf_mode'' of
        Inl e \<Rightarrow> (Inl e, self, [])
      | Inr conf_mode \<Rightarrow>
          if \<not> truthy conf_mode then
            (Inl (VyOSError ''Cannot save when not in configuration mode''), self, [])
          else
            (case getattr_Router self ''__session_modified'' of
               Inl e \<Rightarrow> (Inl e, self, [])
             | Inr session_modified \<Rightarrow>
                 if truthy session_modified then
                   (Inl (VyOSError ''Cannot save when there are uncommited changes''), self, [])
                 else
                   (case xc ''save'' of
                      Inl e \<Rightarrow> (Inl e, self, [''save''])
                    | Inr output \<Rightarrow>
                        (Inr PNone, self(''__session_saved'' \<mapsto> PBool True), [''save'']))))"

text \<open>\<^verbatim>\<open>_exit(self, force=False)\<close>.\<close>

definition vyos_exit ::
  "transport \<Rightarrow> pyobj \<Rightarrow> bool \<Rightarrow> (exn + pyval) \<times> pyobj \<times> string list" where
  "vyos_exit xc self force =
     (case getattr_Router self ''__conf_mode'' of
        Inl e \<Rightarrow> (Inl e, self, [])
      | Inr conf_mode \<Rightarrow>
          if \<not> truthy conf_mode then (Inr PNone, self, [])
          else
            (case getattr_Router self ''__session_modified'' of
               Inl e \<Rightarrow> (Inl e, self, [])
             | Inr session_modified \<Rightarrow>
                 if truthy session_modified then
                   (if \<not> force then
                      (Inl (VyOSError
                         ''Cannot exit a session with uncommited changes, use force flag to discard''),
                       self, [])
                    else
                      (case xc ''exit discard'' of
                         Inl e \<Rightarrow> (Inl e, self, [''exit discard''])
                       | Inr output \<Rightarrow>
                           (Inr PNone, self(''__conf_mode'' \<mapsto> PBool False), [''exit discard''])))
                 else
                   (case getattr_Router self ''__session_saved'' of
                      Inl e \<Rightarrow> (Inl e, self, [])
                    | Inr session_saved \<Rightarrow>
                        if (\<not> truthy session_saved) \<and> (\<not> force) then
                          (Inl (VyOSError
                             ''Cannot exit a session with unsaved changes, use force flag to ignore''),
                           self, [])
                        else
                          (case xc ''exit'' of
                             Inl e \<Rightarrow> (Inl e, self, [''exit''])
                           | Inr output \<Rightarrow>
                               (Inr PNone, self(''__conf_mode'' \<mapsto> PBool False), [''exit''])))))"


text \<open>
  The first token of a command, in the words of the specification: the characters up to
  the first white space, leading white space skipped (\<^verbatim>\<open>command.split()[0]\<close>). The code
  does not compute it.
\<close>

definition first_token :: "string \<Rightarrow> string" where
  "first_token s = takeWhile (\<lambda>c. \<not> is_space c) (dropWhile is_space s)"

section \<open>virsh.py: the libvirt wrapper\<close>

text \<open>
  The libvirt binding is outside the repository. Its answers are parameters: what
  \<^verbatim>\<open>libvirt.open\<close> does (raise, return \<^verbatim>\<open>None\<close>, return a connection), the domain objects
  \<^verbatim>\<open>listAllDomains\<close> returns for a state code (\<open>None\<close>: the call raises; each object is
  the answer of its \<^verbatim>\<open>name()\<close>, \<open>None\<close> when that raises), whether a lookup or a lifecycle
  call on a name succeeds, and whether the \<open>n\<close>-th \<^verbatim>\<open>conn.close()\<close> of a call succeeds.
  A failing library call raises; a bare \<^verbatim>\<open>except:\<close> catches it. The calls made are recorded
  in order.
\<close>

datatype open_result = OpenRaises | OpenNone | OpenConn

record libvirt_env =
  lv_open :: open_result
  listAllDomains :: "int \<Rightarrow> string option list option"
  lookupByName :: "string \<Rightarrow> bool"
  dom_reboot :: "string \<Rightarrow> bool"
  dom_destroy :: "string \<Rightarrow> bool"
  dom_shutdown :: "string \<Rightarrow> bool"
  dom_create :: "string \<Rightarrow> bool"
  conn_close :: "nat \<Rightarrow> bool"

datatype lv_call =
    LvOpen
  | ListAllDomains int
  | Name
  | LookupByName string
  | Reboot string
  | Destroy string
  | Shutdown string
  | Create string
  | ConnClose

text \<open>
  \<^verbatim>\<open>re.search(match, domain, re.I | re.S | re.M) is not None\<close> is the parameter \<open>search\<close>:
  \<open>Some True\<close> for a match, \<open>Some False\<close> for none, \<open>None\<close> when the pattern does not compile
  and \<^verbatim>\<open>re.error\<close> is raised.
\<close>

type_synonym re_search = "string \<Rightarrow> string \<Rightarrow> bool option"

text \<open>\<^verbatim>\<open>_connect_to_libvirt\<close>: \<^verbatim>\<open>exit(1)\<close> when \<^verbatim>\<open>libvirt.open\<close> returns \<^verbatim>\<open>None\<close>.\<close>

definition connect_to_libvirt :: "libvirt_env \<Rightarrow> exn + unit" where
  "connect_to_libvirt env =
     (case lv_open env of
        OpenRaises \<Rightarrow> Inl LibvirtError
      | OpenNone \<Rightarrow> Inl (SystemExit 1)
      | OpenConn \<Rightarrow> Inr ())"

text \<open>
  \<^verbatim>\<open>for domain in domains: names.append(domain.name())\<close>: the names so far and the calls
  made, or \<open>None\<close> with the calls made when a \<^verbatim>\<open>name()\<close> raises.
\<close>

fun domain_names :: "string option list \<Rightarrow> string list \<Rightarrow> string list option \<times> lv_call list" where
  "domain_names [] names = (Some names, [])"
| "domain_names (None # domains) names = (None, [Name])"
| "domain_names (Some n # domains) names =
     (case domain_names domains (names @ [n]) of (r, calls) \<Rightarrow> (r, Name # calls))"

text \<open>\<^verbatim>\<open>_list_vms(state)\<close>: the list of names, or \<open>None\<close> for the value \<^verbatim>\<open>False\<close>.\<close>

definition list_vms :: "libvirt_env \<Rightarrow> int \<Rightarrow> (exn + string list option) \<times> lv_call list" where
  "list_vms env state =
     (case connect_to_libvirt env of
        Inl e \<Rightarrow> (Inl e, [LvOpen])
      | Inr conn \<Rightarrow>
          (case listAllDomains env state of
             None \<Rightarrow> (Inr None, [LvOpen, ListAllDomains state])
           | Some domains \<Rightarrow>
               if \<not> conn_close env 0 then (Inr None, [LvOpen, ListAllDomains state, ConnClose])
               else
                 (case domain_names domains [] of
                    (None, calls) \<Rightarrow>
                      (Inl LibvirtError, [LvOpen, ListAllDomains state, ConnClose] @ calls)
                  | (Some vm_list, calls) \<Rightarrow>
                      (Inr (Some vm_list), [LvOpen, ListAllDomains state, ConnClose] @ calls))))"

text \<open>The loop of \<^verbatim>\<open>list\<close>: \<open>matching_list\<close> grows by \<^verbatim>\<open>append\<close>.\<close>

fun list_loop :: "re_search \<Rightarrow> string \<Rightarrow> string list \<Rightarrow> string list \<Rightarrow> exn + string list" where
  "list_loop search match [] matching_list = Inr matching_list"
| "list_loop search match (domain # vm_list) matching_list =
     (case search match domain of
        None \<Rightarrow> Inl ReError
      | Some found \<Rightarrow>
          list_loop search match vm_list
            (if found then matching_list @ [domain] else matching_list))"

text \<open>\<^verbatim>\<open>list(match='.*', state='all')\<close>.\<close>

definition state_code :: "string \<Rightarrow> int option" where
  "state_code state =
     (if state = ''all'' then Some 0
      else if state = ''running'' then Some 1
      else if state = ''shutdown'' then Some 2
      else None)"

definition virsh_list ::
  "libvirt_env \<Rightarrow> re_search \<Rightarrow> string \<Rightarrow> string \<Rightarrow> (exn + pyval) \<times> lv_call list" where
  "virsh_list env search match state =
     (case state_code state of
        None \<Rightarrow> (Inl (SystemExit 1), [])
      | Some code \<Rightarrow>
          (case list_vms env code of
             (Inl e, calls) \<Rightarrow> (Inl e, calls)
           | (Inr None, calls) \<Rightarrow> (Inr (PBool False), calls)
           | (Inr (Some vm_list), calls) \<Rightarrow>
               (case list_loop search match vm_list [] of
                  Inl e \<Rightarrow> (Inl e, calls)
                | Inr matching_list \<Rightarrow> (Inr (PList matching_list), calls))))"

text \<open>\<^verbatim>\<open>reboot(domain)\<close>.\<close>

definition reboot :: "libvirt_env \<Rightarrow> string \<Rightarrow> (exn + pyval) \<times> lv_call list" where
  "reboot env domain =
     (case connect_to_libvirt env of
        Inl e \<Rightarrow> (Inl e, [LvOpen])
      | Inr conn \<Rightarrow>
          if \<not> lookupByName env domain then
            (Inr (PBool False), [LvOpen, LookupByName domain])
          else if \<not> dom_reboot env domain then
            (Inr (PBool False), [LvOpen, LookupByName domain, Reboot domain])
          else if \<not> conn_close env 0 then
            (Inr (PBool False), [LvOpen, LookupByName domain, Reboot domain, ConnClose])
          else
            (Inr (PBool True), [LvOpen, LookupByName domain, Reboot domain, ConnClose]))"

text \<open>
  \<^verbatim>\<open>shutdown(domain, force=False)\<close>. \<^verbatim>\<open>force is True\<close> holds for the value \<^verbatim>\<open>True\<close> only.
\<close>

definition stop_call :: "pyval \<Rightarrow> string \<Rightarrow> lv_call" where
  "stop_call force domain = (if force = PBool True then Destroy domain else Shutdown domain)"

definition stop_ok :: "libvirt_env \<Rightarrow> pyval \<Rightarrow> string \<Rightarrow> bool" where
  "stop_ok env force domain =
     (if force = PBool True then dom_destroy env domain else dom_shutdown env domain)"

definition shutdown :: "libvirt_env \<Rightarrow> string \<Rightarrow> pyval \<Rightarrow> (exn + pyval) \<times> lv_call list" where
  "shutdown env domain force =
     (case connect_to_libvirt env of
        Inl e \<Rightarrow> (Inl e, [LvOpen])
      | Inr conn \<Rightarrow>
          if \<not> lookupByName env domain then
            (Inr (PBool False), [LvOpen, LookupByName domain])
          else if \<not> stop_ok env force domain then
            (Inr (PBool False), [LvOpen, LookupByName domain, stop_call force domain])
          else if \<not> conn_close env 0 then
            (Inr (PBool False), [LvOpen, LookupByName domain, stop_call force domain, ConnClose])
          else
            (Inr (PBool True), [LvOpen, LookupByName domain, stop_call force domain, ConnClose]))"

text \<open>
  The second loop of \<^verbatim>\<open>shutdown_matching\<close> and \<^verbatim>\<open>start_matching\<close>: \<^verbatim>\<open>re.search\<close> stands
  outside the inner \<^verbatim>\<open>try\<close>, the lookup and the lifecycle call inside it, and the handler
  only logs. \<open>act\<close> is the lifecycle call.
\<close>

fun matching_loop ::
  "libvirt_env \<Rightarrow> re_search \<Rightarrow> string \<Rightarrow> (string \<Rightarrow> lv_call) \<Rightarrow> string list
     \<Rightarrow> (exn + unit) \<times> lv_call list" where
  "matching_loop env search match act [] = (Inr (), [])"
| "matching_loop env search match act (domain # domains) =
     (case search match domain of
        None \<Rightarrow> (Inl ReError, [])
      | Some found \<Rightarrow>
          (let calls = (if found then
                          (if lookupByName env domain then [LookupByName domain, act domain]
                           else [LookupByName domain])
                        else [])
           in (case matching_loop env search match act domains of
                 (r, rest) \<Rightarrow> (r, calls @ rest))))"

text \<open>
  What \<^verbatim>\<open>shutdown_matching\<close> and \<^verbatim>\<open>start_matching\<close> share: they differ in the lifecycle
  call only.
\<close>

definition for_matching ::
  "libvirt_env \<Rightarrow> re_search \<Rightarrow> string \<Rightarrow> (string \<Rightarrow> lv_call) \<Rightarrow> (exn + pyval) \<times> lv_call list" where
  "for_matching env search match act =
     (case connect_to_libvirt env of
        Inl e \<Rightarrow> (Inl e, [LvOpen])
      | Inr conn \<Rightarrow>
          (case listAllDomains env 0 of
             None \<Rightarrow> (Inr (PBool False), [LvOpen, ListAllDomains 0])
           | Some domain_objects \<Rightarrow>
               (case domain_names domain_objects [] of
                  (None, calls) \<Rightarrow> (Inr (PBool False), [LvOpen, ListAllDomains 0] @ calls)
                | (Some domains, calls) \<Rightarrow>
                    (case matching_loop env search match act domains of
                       (Inl e, calls') \<Rightarrow> (Inl e, [LvOpen, ListAllDomains 0] @ calls @ calls')
                     | (Inr u, calls') \<Rightarrow>
                         if \<not> conn_close env 0 then
                           (Inl LibvirtError,
                            [LvOpen, ListAllDomains 0] @ calls @ calls' @ [ConnClose])
                         else
                           (Inr (PList domains),
                            [LvOpen, ListAllDomains 0] @ calls @ calls' @ [ConnClose])))))"

text \<open>\<^verbatim>\<open>shutdown_matching(match='.*', force=False)\<close>.\<close>

definition shutdown_matching ::
  "libvirt_env \<Rightarrow> re_search \<Rightarrow> string \<Rightarrow> pyval \<Rightarrow> (exn + pyval) \<times> lv_call list" where
  "shutdown_matching env search match force = for_matching env search match (stop_call force)"

text \<open>
  \<^verbatim>\<open>start(domain)\<close>: the handler calls \<^verbatim>\<open>conn.close()\<close> itself, the first such call unless
  the one in the \<^verbatim>\<open>try\<close> block is what failed.
\<close>

definition start :: "libvirt_env \<Rightarrow> string \<Rightarrow> (exn + pyval) \<times> lv_call list" where
  "start env domain =
     (case connect_to_libvirt env of
        Inl e \<Rightarrow> (Inl e, [LvOpen])
      | Inr conn \<Rightarrow>
          if \<not> lookupByName env domain then
            (if conn_close env 0 then Inr (PBool False) else Inl LibvirtError,
             [LvOpen, LookupByName domain, ConnClose])
          else if \<not> dom_create env domain then
            (if conn_close env 0 then Inr (PBool False) else Inl LibvirtError,
             [LvOpen, LookupByName domain, Create domain, ConnClose])
          else if \<not> conn_close env 0 then
            (if conn_close env 1 then Inr (PBool False) else Inl LibvirtError,
             [LvOpen, LookupByName domain, Create domain, ConnClose, ConnClose])
          else
            (Inr (PBool True), [LvOpen, LookupByName domain, Create domain, ConnClose]))"

text \<open>\<^verbatim>\<open>start_matching(match='.*', sleep_secs=1)\<close>; \<^verbatim>\<open>sleep_secs\<close> is not read.\<close>

definition start_matching ::
  "libvirt_env \<Rightarrow> re_search \<Rightarrow> string \<Rightarrow> int \<Rightarrow> (exn + pyval) \<times> lv_call list" where
  "start_matching env search match sleep_secs = for_matching env search match Create"

text \<open>
  Modelled from the spec: Python's \<^verbatim>\<open>re\<close> engine is not part of the repository. The
  specification fixes the flags (case-insensitive, multiline, dot-matches-newline); this
  is \<^verbatim>\<open>re.search\<close> under them for the patterns \<^verbatim>\<open>^w\<close> with \<open>w\<close> of ASCII letters and digits:
  \<open>w\<close> stands, in any letter case, at the start of the string or right after a newline.
  Any other pattern is outside the fragment and answered \<open>None\<close>.
\<close>

definition is_alnum :: "char \<Rightarrow> bool" where
  "is_alnum c =
     (let n = (of_char c :: nat)
      in (48 \<le> n \<and> n \<le> 57) \<or> (65 \<le> n \<and> n \<le> 90) \<or> (97 \<le> n \<and> n \<le> 122))"

definition lower :: "char \<Rightarrow> char" where
  "lower c =
     (let n = (of_char c :: nat) in if 65 \<le> n \<and> n \<le> 90 then char_of (n + 32) else c)"

fun line_starts :: "string \<Rightarrow> string list" where
  "line_starts [] = []"
| "line_starts (c # cs) = (if c = CHR 0x0A then cs # line_starts cs else line_starts cs)"

definition caret_word_search :: re_search where
  "caret_word_search pattern s =
     (case pattern of
        [] \<Rightarrow> None
      | c # w \<Rightarrow>
          if c = CHR ''^'' \<and> list_all is_alnum w then
            Some (list_ex (\<lambda>t. startswith (map lower w) (map lower t)) (s # line_starts s))
          else None)"

section \<open>time\_functions.py\<close>

text \<open>
  The module composes library calls: \<^verbatim>\<open>datetime.datetime.now()\<close>,
  \<^verbatim>\<open>datetime.datetime.utcnow()\<close>, \<^verbatim>\<open>d.timetuple()\<close> and \<^verbatim>\<open>time.mktime\<close>, the C library's
  conversion of a time tuple read in the host's local time zone, which returns a float or
  raises \<^verbatim>\<open>OverflowError\<close>. They are parameters; \<open>'dt\<close> is the type of datetime objects and
  \<open>'tt\<close> the type of time tuples.
\<close>

record ('dt, 'tt) time_lib =
  datetime_now :: 'dt
  datetime_utcnow :: 'dt
  timetuple :: "'dt \<Rightarrow> 'tt"
  mktime :: "'tt \<Rightarrow> real option"

text \<open>\<^verbatim>\<open>int(x)\<close> of a float truncates towards zero.\<close>

definition py_int :: "real \<Rightarrow> int" where
  "py_int x = (if 0 \<le> x then \<lfloor>x\<rfloor> else \<lceil>x\<rceil>)"

definition get_local_epoch_time :: "('dt, 'tt) time_lib \<Rightarrow> exn + int" where
  "get_local_epoch_time lib =
     (let d = datetime_now lib
      in (case mktime lib (timetuple lib d) of
            None \<Rightarrow> Inl OverflowError
          | Some t \<Rightarrow> Inr (py_int t)))"

definition get_utc_epoch_time :: "('dt, 'tt) time_lib \<Rightarrow> exn + int" where
  "get_utc_epoch_time lib =
     (let d = datetime_utcnow lib
      in (case mktime lib (timetuple lib d) of
            None \<Rightarrow> Inl OverflowError
          | Some t \<Rightarrow> Inr (py_int t)))"

text \<open>
  Modelled from the spec: \<^verbatim>\<open>time.mktime\<close> is the C library's, not part of the repository. The
  specification calls it the local calendar conversion. On a host whose zone lies \<open>utcoff\<close>
  seconds east of UTC, a time tuple read as local time names the instant \<open>utcoff\<close> seconds
  before the one it names when read as UTC; \<open>timegm\<close> is the UTC conversion of a time tuple to
  seconds since the epoch (\<^verbatim>\<open>calendar.timegm\<close>), a parameter.
\<close>

definition local_mktime :: "('tt \<Rightarrow> int) \<Rightarrow> int \<Rightarrow> 'tt \<Rightarrow> real option" where
  "local_mktime timegm utcoff tt = Some (of_int (timegm tt - utcoff))"

section \<open>Properties of vyos.py\<close>

lemma getattr_Router_Some: "self name = Some v \<Longrightarrow> getattr_Router self name = Inr v"
  by (simp add: getattr_Router_def)

subsection \<open>The lines \<^verbatim>\<open>execute_command\<close> removes\<close>

text \<open>
  Without configuration mode the counters are 1 and 2, so the first loop does not run and
  the second runs once: the last line goes, and only when there are three lines or more.
\<close>

lemma trim_output_op_mode:
  "trim_output 1 2 raw =
     (let output = map (rstrip ''?[m'') (splitlines raw)
      in if 3 \<le> length output then Inr (butlast output) else Inr output)"
  by (auto simp add: trim_output_def range_len_def Let_def)

lemma trim_output_op_mode_length:
  assumes "3 \<le> length (splitlines raw)"
  shows "\<exists>output. trim_output 1 2 raw = Inr output \<and>
                  length output = length (splitlines raw) - 1"
  using assms by (simp add: trim_output_op_mode Let_def)

lemma trim_output_short:
  assumes "length (splitlines raw) < 3"
  shows "trim_output t b raw = Inr (map (rstrip ''?[m'') (splitlines raw))"
  using assms by (simp add: trim_output_def Let_def)

text \<open>
  C1 (\<^verbatim>\<open>Router.execute_command\<close>, \<^verbatim>\<open>config_mode_required=False\<close>). On a fresh router whose
  child answers the three lines \<^verbatim>\<open>l1\<close>, \<^verbatim>\<open>l2\<close>, \<^verbatim>\<open>l3\<close>, the call returns the two lines
  \<^verbatim>\<open>l1\<close>, \<^verbatim>\<open>l2\<close>: one line is removed, not three.
\<close>

theorem execute_command_op_mode_three_lines:
  "\<exists>router tr.
     Router_init \<lparr>spawn_fails = False, before = (\<lambda>sent. Some ''l1\<newline>l2\<newline>l3'')\<rparr> []
       = (Inr router, tr) \<and>
     length (splitlines ''l1\<newline>l2\<newline>l3'') = 3 \<and>
     execute_command \<lparr>spawn_fails = False, before = (\<lambda>sent. Some ''l1\<newline>l2\<newline>l3'')\<rparr>
       router ''show version'' False tr
     = (Inr [''l1'', ''l2''],
        tr @ [SendLine ''show version'', SendLine ''exit'', ExpectEOF])"
  by (simp add: Router_init_def execute_command_def getattr_Router_def trim_output_op_mode
        splitlines_def rstrip_def Let_def)

subsection \<open>\<^verbatim>\<open>Router.status\<close>\<close>

text \<open>
  C10 (\<^verbatim>\<open>Router.status\<close>). On every router the constructor returns, \<^verbatim>\<open>status()\<close> raises
  \<^verbatim>\<open>AttributeError\<close> for \<^verbatim>\<open>logged_in\<close>: the constructor does not assign it and the class
  does not define it.
\<close>

theorem status_fresh_router:
  assumes "Router_init env tr = (Inr router, tr')"
  shows "status router = Inl (AttributeError ''logged_in'')"
proof -
  from assms have "router ''logged_in'' = None"
    by (auto simp add: Router_init_def Let_def split: if_splits)
  then show ?thesis
    by (simp add: status_def getattr_Router_def Router_class_attrs_def)
qed

theorem status_fresh_router_witness:
  "\<exists>router tr'.
     Router_init \<lparr>spawn_fails = False, before = (\<lambda>sent. None)\<rparr> [] = (Inr router, tr') \<and>
     status router = Inl (AttributeError ''logged_in'')"
proof -
  obtain router tr' where
    r: "Router_init \<lparr>spawn_fails = False, before = (\<lambda>sent. None)\<rparr> [] = (Inr router, tr')"
    by (simp add: Router_init_def Let_def)
  from status_fresh_router [OF r] r show ?thesis by blast
qed

subsection \<open>The entry points\<close>

text \<open>
  C9 (\<^verbatim>\<open>run_config_mode_command\<close>). A command that starts with no prefix of the allow-list
  makes the function return \<^verbatim>\<open>None\<close>: nothing is raised, no session is spawned and nothing
  is sent.
\<close>

theorem run_config_mode_command_not_allowed:
  assumes "\<not> startswith_any config_allow_list command"
  shows "run_config_mode_command env command save_changes tr = (Inr PNone, tr)"
  using assms by (simp add: run_config_mode_command_def)

theorem run_config_mode_command_not_allowed_witness:
  "\<not> startswith_any config_allow_list ''reboot now'' \<and>
   run_config_mode_command \<lparr>spawn_fails = False, before = (\<lambda>sent. Some ''x'')\<rparr>
     ''reboot now'' False []
   = (Inr PNone, [])"
proof -
  have h: "\<not> startswith_any config_allow_list ''reboot now''"
    by (simp add: startswith_any_def config_allow_list_def startswith_def)
  from run_config_mode_command_not_allowed [OF h] h show ?thesis by blast
qed

text \<open>
  C5, as stated, fails: \<^verbatim>\<open>showdown\<close> is one token, it is not the token \<^verbatim>\<open>show\<close>, and
  \<^verbatim>\<open>run_op_mode_command\<close> spawns a session and sends it to the device.
\<close>

theorem run_op_mode_command_accepts_showdown:
  "first_token ''showdown'' \<noteq> ''show'' \<and>
   run_op_mode_command \<lparr>spawn_fails = False, before = (\<lambda>sent. Some [])\<rparr> ''showdown'' []
     = (Inr (PList []),
        [Spawn ''su - vyos'', SendLine ''export TERM=xterm'', SendLine ''set terminal length 0'',
         SendLine '' showdown'', SendLine ''exit'', ExpectEOF, Close, Terminate])"
  by (simp add: first_token_def is_space_def run_op_mode_command_def startswith_def
        Router_init_def getattr_Router_def execute_command_def close_session_def Let_def
        sent_lines_def trim_output_def splitlines_def)

text \<open>
  C5, amended (\<^verbatim>\<open>run_op_mode_command\<close>). The test is on the first four characters. A
  command that does not start with the characters \<^verbatim>\<open>show\<close> is answered with the message
  string, and no session is spawned and nothing is sent; a command that starts with them
  is accepted whatever follows: when the spawn succeeds, a session is spawned and the
  command is sent after a space.
\<close>

theorem run_op_mode_command_prefix:
  "(\<not> startswith ''show'' command \<longrightarrow>
      run_op_mode_command env command tr = (Inr (PStr show_only_message), tr)) \<and>
   (startswith ''show'' command \<and> \<not> spawn_fails env \<longrightarrow>
      (\<exists>tr'. snd (run_op_mode_command env command tr)
         = tr @ [Spawn ''su - vyos'', SendLine ''export TERM=xterm'',
                 SendLine ''set terminal length 0'', SendLine ('' '' @ command)] @ tr'))"
proof (intro conjI impI)
  assume "\<not> startswith ''show'' command"
  then show "run_op_mode_command env command tr = (Inr (PStr show_only_message), tr)"
    by (simp add: run_op_mode_command_def)
next
  assume "startswith ''show'' command \<and> \<not> spawn_fails env"
  then show "\<exists>tr'. snd (run_op_mode_command env command tr)
         = tr @ [Spawn ''su - vyos'', SendLine ''export TERM=xterm'',
                 SendLine ''set terminal length 0'', SendLine ('' '' @ command)] @ tr'"
    by (auto simp add: run_op_mode_command_def Router_init_def getattr_Router_def
          execute_command_def close_session_def Let_def
          split: option.splits sum.splits prod.splits)
qed

theorem run_op_mode_command_prefix_witness:
  "\<not> startswith ''show'' ''reload system'' \<and>
   run_op_mode_command \<lparr>spawn_fails = False, before = (\<lambda>sent. Some [])\<rparr> ''reload system'' []
     = (Inr (PStr show_only_message), []) \<and>
   startswith ''show'' ''show version'' \<and>
   \<not> spawn_fails \<lparr>spawn_fails = False, before = (\<lambda>sent. Some [])\<rparr> \<and>
   (\<exists>tr'. snd (run_op_mode_command \<lparr>spawn_fails = False, before = (\<lambda>sent. Some [])\<rparr>
                 ''show version'' [])
      = [] @ [Spawn ''su - vyos'', SendLine ''export TERM=xterm'',
              SendLine ''set terminal length 0'', SendLine ('' '' @ ''show version'')] @ tr')"
proof -
  have h1: "\<not> startswith ''show'' ''reload system''"
    by (simp add: startswith_def)
  have h2: "startswith ''show'' ''show version'' \<and>
            \<not> spawn_fails \<lparr>spawn_fails = False, before = (\<lambda>sent. Some [])\<rparr>"
    by (simp add: startswith_def)
  from run_op_mode_command_prefix
         [of "''reload system''" "\<lparr>spawn_fails = False, before = (\<lambda>sent. Some [])\<rparr>" "[]"]
       run_op_mode_command_prefix
         [of "''show version''" "\<lparr>spawn_fails = False, before = (\<lambda>sent. Some [])\<rparr>" "[]"]
       h1 h2
  show ?thesis by blast
qed

subsection \<open>Failure phrases in the device output\<close>















subsection \<open>\<^verbatim>\<open>_exit\<close> and \<^verbatim>\<open>_save\<close>\<close>

text \<open>
  Without the force flag, \<^verbatim>\<open>_exit\<close> on a session in configuration mode with uncommitted or
  unsaved changes raises \<^verbatim>\<open>VyOSError\<close>, changes no attribute and sends nothing.
\<close>

lemma vyos_exit_unforced:
  assumes "self ''__conf_mode'' = Some conf_mode" and "truthy conf_mode"
    and "self ''__session_modified'' = Some session_modified"
    and "self ''__session_saved'' = Some session_saved"
    and "truthy session_modified \<or> \<not> truthy session_saved"
  shows "\<exists>m. vyos_exit xc self False = (Inl (VyOSError m), self, [])"
  using assms by (auto simp add: vyos_exit_def getattr_Router_Some)

text \<open>
  With the force flag, and when the transport returns, \<^verbatim>\<open>_exit\<close> assigns \<^verbatim>\<open>__conf_mode\<close> and
  nothing else.
\<close>

lemma vyos_exit_forced_modified:
  assumes "self ''__conf_mode'' = Some conf_mode" and "truthy conf_mode"
    and "self ''__session_modified'' = Some session_modified" and "truthy session_modified"
    and "xc ''exit discard'' = Inr output"
  shows "vyos_exit xc self True
           = (Inr PNone, self(''__conf_mode'' \<mapsto> PBool False), [''exit discard''])"
  using assms by (simp add: vyos_exit_def getattr_Router_Some)

lemma vyos_exit_forced_unmodified:
  assumes "self ''__conf_mode'' = Some conf_mode" and "truthy conf_mode"
    and "self ''__session_modified'' = Some session_modified" and "\<not> truthy session_modified"
    and "self ''__session_saved'' = Some session_saved"
    and "xc ''exit'' = Inr output"
  shows "vyos_exit xc self True = (Inr PNone, self(''__conf_mode'' \<mapsto> PBool False), [''exit''])"
  using assms by (simp add: vyos_exit_def getattr_Router_Some)

text \<open>
  C3 (\<^verbatim>\<open>_exit\<close>, \<^verbatim>\<open>force=True\<close>). On a session in configuration mode with uncommitted and
  unsaved changes, the forced exit sends \<^verbatim>\<open>exit discard\<close> and leaves configuration mode, and
  afterwards \<^verbatim>\<open>__session_modified\<close> is still true: the flag is not cleared.
\<close>

theorem vyos_exit_forced_keeps_modified:
  "(case vyos_exit (\<lambda>c. Inr [])
           [''__conf_mode'' \<mapsto> PBool True, ''__session_modified'' \<mapsto> PBool True,
            ''__session_saved'' \<mapsto> PBool False] True
    of (r, self, sent) \<Rightarrow>
         (r, self ''__conf_mode'', self ''__session_modified'', self ''__session_saved'', sent))
   = (Inr PNone, Some (PBool False), Some (PBool True), Some (PBool False), [''exit discard''])"
  by (simp add: vyos_exit_def getattr_Router_def)

text \<open>
  C8 (\<^verbatim>\<open>_save\<close>). On a session in configuration mode with uncommitted changes, \<^verbatim>\<open>_save\<close>
  raises \<^verbatim>\<open>VyOSError\<close>, passes no command to the transport and leaves every attribute of the
  session as it was.
\<close>

theorem vyos_save_modified_fails:
  assumes "self ''__conf_mode'' = Some conf_mode" and "truthy conf_mode"
    and "self ''__session_modified'' = Some session_modified" and "truthy session_modified"
  shows "vyos_save xc self
           = (Inl (VyOSError ''Cannot save when there are uncommited changes''), self, [])"
  using assms by (simp add: vyos_save_def getattr_Router_Some)

theorem vyos_save_modified_fails_witness:
  "[''__conf_mode'' \<mapsto> PBool True, ''__session_modified'' \<mapsto> PBool True,
    ''__session_saved'' \<mapsto> PBool False] ''__conf_mode'' = Some (PBool True) \<and>
   [''__conf_mode'' \<mapsto> PBool True, ''__session_modified'' \<mapsto> PBool True,
    ''__session_saved'' \<mapsto> PBool False] ''__session_modified'' = Some (PBool True) \<and>
   truthy (PBool True) \<and>
   vyos_save (\<lambda>c. Inr [])
     [''__conf_mode'' \<mapsto> PBool True, ''__session_modified'' \<mapsto> PBool True,
      ''__session_saved'' \<mapsto> PBool False]
   = (Inl (VyOSError ''Cannot save when there are uncommited changes''),
      [''__conf_mode'' \<mapsto> PBool True, ''__session_modified'' \<mapsto> PBool True,
       ''__session_saved'' \<mapsto> PBool False], [])"
proof -
  have h1: "[''__conf_mode'' \<mapsto> PBool True, ''__session_modified'' \<mapsto> PBool True,
    ''__session_saved'' \<mapsto> PBool False] ''__conf_mode'' = Some (PBool True)" by simp
  have h2: "[''__conf_mode'' \<mapsto> PBool True, ''__session_modified'' \<mapsto> PBool True,
    ''__session_saved'' \<mapsto> PBool False] ''__session_modified'' = Some (PBool True)" by simp
  have t: "truthy (PBool True)" by simp
  from vyos_save_modified_fails [OF h1 t h2 t, of "\<lambda>c. Inr []"] h1 h2 t
  show ?thesis by blast
qed

section \<open>Properties of virsh.py\<close>

lemma domain_names_all_Some:
  "domain_names (map Some L) names = (Some (names @ L), replicate (length L) Name)"
  by (induction L arbitrary: names) simp_all

lemma domain_names_some_None:
  "None \<in> set domains \<Longrightarrow> fst (domain_names domains names) = None"
proof (induction domains arbitrary: names)
  case Nil
  then show ?case by simp
next
  case (Cons d domains)
  show ?case
  proof (cases d)
    case None
    then show ?thesis by simp
  next
    case (Some n)
    with Cons.prems have "None \<in> set domains" by simp
    from Cons.IH [OF this, of "names @ [n]"] Some show ?thesis
      by (simp add: split_beta)
  qed
qed

text \<open>The loop of \<^verbatim>\<open>list\<close> appends the matching names in the order it meets them.\<close>

lemma list_loop_filter:
  "\<forall>n\<in>set L. search P n \<noteq> None \<Longrightarrow>
     list_loop search P L acc = Inr (acc @ filter (\<lambda>n. search P n = Some True) L)"
proof (induction L arbitrary: acc)
  case Nil
  then show ?case by simp
next
  case (Cons d L)
  then obtain b where b: "search P d = Some b" by auto
  from Cons.prems have "\<forall>n\<in>set L. search P n \<noteq> None" by simp
  from Cons.IH [OF this] b show ?case by simp
qed

lemma matching_loop_returns:
  "\<forall>n\<in>set L. search P n \<noteq> None \<Longrightarrow> fst (matching_loop env search P act L) = Inr ()"
proof (induction L)
  case Nil
  then show ?case by simp
next
  case (Cons d L)
  then obtain b where b: "search P d = Some b" by auto
  from Cons.prems have "\<forall>n\<in>set L. search P n \<noteq> None" by simp
  from Cons.IH [OF this] b show ?case by (simp add: split_beta Let_def)
qed

lemma for_matching_listing_fails:
  assumes "lv_open env = OpenConn"
    and "listAllDomains env 0 = None \<or> (\<exists>ds. listAllDomains env 0 = Some ds \<and> None \<in> set ds)"
  shows "fst (for_matching env search P act) = Inr (PBool False)"
proof -
  from assms(2) show ?thesis
  proof
    assume "listAllDomains env 0 = None"
    with assms(1) show ?thesis by (simp add: for_matching_def connect_to_libvirt_def)
  next
    assume "\<exists>ds. listAllDomains env 0 = Some ds \<and> None \<in> set ds"
    then obtain ds where ds: "listAllDomains env 0 = Some ds" and n: "None \<in> set ds" by blast
    from domain_names_some_None [OF n, of "[]"]
    obtain calls where "domain_names ds [] = (None, calls)"
      by (cases "domain_names ds []") simp
    with assms(1) ds show ?thesis by (simp add: for_matching_def connect_to_libvirt_def)
  qed
qed

lemma for_matching_returns_names:
  assumes "lv_open env = OpenConn" and "listAllDomains env 0 = Some (map Some L)"
    and "\<forall>n\<in>set L. search P n \<noteq> None" and "conn_close env 0"
  shows "fst (for_matching env search P act) = Inr (PList L)"
proof -
  obtain calls where m: "matching_loop env search P act L = (Inr (), calls)"
    using matching_loop_returns [of L search P env act] assms(3)
    by (cases "matching_loop env search P act L") simp
  with assms show ?thesis
    by (simp add: for_matching_def connect_to_libvirt_def domain_names_all_Some)
qed

text \<open>
  C2 (\<^verbatim>\<open>list\<close>). For a valid state, when the connection opens, the library lists the domains
  named \<open>L\<close> and the connection closes, and when the pattern \<open>P\<close> compiles, \<^verbatim>\<open>list\<close> returns
  the names of \<open>L\<close> on which \<^verbatim>\<open>re.search\<close> finds \<open>P\<close>, in the order of \<open>L\<close>.
\<close>

theorem virsh_list_returns_matching_sublist:
  assumes "state_code state = Some code" and "lv_open env = OpenConn"
    and "listAllDomains env code = Some (map Some L)" and "conn_close env 0"
    and "\<forall>n\<in>set L. search P n \<noteq> None"
  shows "fst (virsh_list env search P state)
           = Inr (PList (filter (\<lambda>n. search P n = Some True) L))"
  using assms
  by (simp add: virsh_list_def list_vms_def connect_to_libvirt_def domain_names_all_Some
        list_loop_filter)

theorem virsh_list_returns_matching_sublist_witness:
  "state_code ''running'' = Some 1 \<and>
   caret_word_search ''^web'' ''web1'' = Some True \<and>
   caret_word_search ''^web'' ''web2'' = Some True \<and>
   caret_word_search ''^web'' ''db1'' = Some False \<and>
   fst (virsh_list
          \<lparr>lv_open = OpenConn,
           listAllDomains = (\<lambda>code. Some (map Some [''web1'', ''web2'', ''db1''])),
           lookupByName = (\<lambda>n. True), dom_reboot = (\<lambda>n. True), dom_destroy = (\<lambda>n. True),
           dom_shutdown = (\<lambda>n. True), dom_create = (\<lambda>n. True), conn_close = (\<lambda>k. True)\<rparr>
          caret_word_search ''^web'' ''running'')
     = Inr (PList [''web1'', ''web2''])"
proof -
  let ?env = "\<lparr>lv_open = OpenConn,
           listAllDomains = (\<lambda>code. Some (map Some [''web1'', ''web2'', ''db1''])),
           lookupByName = (\<lambda>n. True), dom_reboot = (\<lambda>n. True), dom_destroy = (\<lambda>n. True),
           dom_shutdown = (\<lambda>n. True), dom_create = (\<lambda>n. True), conn_close = (\<lambda>k. True)\<rparr>"
  have s: "state_code ''running'' = Some 1" by (simp add: state_code_def)
  have w1: "caret_word_search ''^web'' ''web1'' = Some True"
    by (simp add: caret_word_search_def is_alnum_def lower_def startswith_def)
  have w2: "caret_word_search ''^web'' ''web2'' = Some True"
    by (simp add: caret_word_search_def is_alnum_def lower_def startswith_def)
  have w3: "caret_word_search ''^web'' ''db1'' = Some False"
    by (simp add: caret_word_search_def is_alnum_def lower_def startswith_def)
  have o: "lv_open ?env = OpenConn" by simp
  have l: "listAllDomains ?env 1 = Some (map Some [''web1'', ''web2'', ''db1''])" by simp
  have c: "conn_close ?env 0" by simp
  have v: "\<forall>n\<in>set [''web1'', ''web2'', ''db1'']. caret_word_search ''^web'' n \<noteq> None"
    by (auto simp add: w1 w2 w3)
  have "fst (virsh_list ?env caret_word_search ''^web'' ''running'')
          = Inr (PList (filter (\<lambda>n. caret_word_search ''^web'' n = Some True)
                          [''web1'', ''web2'', ''db1'']))"
    using virsh_list_returns_matching_sublist
            [of "''running''" 1 ?env "[''web1'', ''web2'', ''db1'']" caret_word_search "''^web''"]
          s o l c v
    by blast
  then have "fst (virsh_list ?env caret_word_search ''^web'' ''running'')
               = Inr (PList [''web1'', ''web2''])"
    by (simp add: w1 w2 w3)
  with w1 w2 w3 s show ?thesis by blast
qed

text \<open>
  C6, as stated, fails: when \<^verbatim>\<open>libvirt.open\<close> returns \<^verbatim>\<open>None\<close>, \<^verbatim>\<open>reboot\<close> does not return
  \<^verbatim>\<open>False\<close>; it ends the process through \<^verbatim>\<open>exit(1)\<close>.
\<close>

theorem reboot_exits_without_connection:
  "reboot \<lparr>lv_open = OpenNone, listAllDomains = (\<lambda>code. Some []),
           lookupByName = (\<lambda>n. True), dom_reboot = (\<lambda>n. True), dom_destroy = (\<lambda>n. True),
           dom_shutdown = (\<lambda>n. True), dom_create = (\<lambda>n. True), conn_close = (\<lambda>k. True)\<rparr>
     ''vm1''
   = (Inl (SystemExit 1), [LvOpen])"
  by (simp add: reboot_def connect_to_libvirt_def)

lemma reboot_connected:
  "lv_open env = OpenConn \<Longrightarrow>
   fst (reboot env domain)
     = Inr (PBool (lookupByName env domain \<and> dom_reboot env domain \<and> conn_close env 0))"
  by (simp add: reboot_def connect_to_libvirt_def)

lemma shutdown_connected:
  "lv_open env = OpenConn \<Longrightarrow>
   fst (shutdown env domain force)
     = Inr (PBool (lookupByName env domain \<and> stop_ok env force domain \<and> conn_close env 0))"
  by (simp add: shutdown_def connect_to_libvirt_def)

lemma start_connected:
  "lv_open env = OpenConn \<Longrightarrow> conn_close env 0 \<Longrightarrow>
   fst (start env domain) = Inr (PBool (lookupByName env domain \<and> dom_create env domain))"
  by (simp add: start_def connect_to_libvirt_def)

lemma virsh_list_listing_fails:
  "lv_open env = OpenConn \<Longrightarrow> state_code state = Some code \<Longrightarrow>
   listAllDomains env code = None \<or> \<not> conn_close env 0 \<Longrightarrow>
   fst (virsh_list env search match state) = Inr (PBool False)"
  by (auto simp add: virsh_list_def list_vms_def connect_to_libvirt_def split: option.splits)

lemma connected_wrapper_results:
  assumes "lv_open env = OpenConn"
  shows
    "fst (reboot env domain)
       = Inr (PBool (lookupByName env domain \<and> dom_reboot env domain \<and> conn_close env 0)) \<and>
     fst (shutdown env domain force)
       = Inr (PBool (lookupByName env domain \<and> stop_ok env force domain \<and> conn_close env 0)) \<and>
     (conn_close env 0 \<longrightarrow>
        fst (start env domain) = Inr (PBool (lookupByName env domain \<and> dom_create env domain))) \<and>
     (state_code state = Some code \<and> (listAllDomains env code = None \<or> \<not> conn_close env 0) \<longrightarrow>
        fst (virsh_list env search match state) = Inr (PBool False)) \<and>
     (listAllDomains env 0 = None \<or> (\<exists>ds. listAllDomains env 0 = Some ds \<and> None \<in> set ds) \<longrightarrow>
        fst (shutdown_matching env search match force) = Inr (PBool False) \<and>
        fst (start_matching env search match sleep_secs) = Inr (PBool False)) \<and>
     (listAllDomains env 0 = Some (map Some L) \<and> (\<forall>n\<in>set L. search match n \<noteq> None) \<and>
      conn_close env 0 \<longrightarrow>
        fst (shutdown_matching env search match force) = Inr (PList L) \<and>
        fst (start_matching env search match sleep_secs) = Inr (PList L))"
proof (intro conjI impI)
  show "fst (reboot env domain)
       = Inr (PBool (lookupByName env domain \<and> dom_reboot env domain \<and> conn_close env 0))"
    by (rule reboot_connected [OF assms])
  show "fst (shutdown env domain force)
       = Inr (PBool (lookupByName env domain \<and> stop_ok env force domain \<and> conn_close env 0))"
    by (rule shutdown_connected [OF assms])
  show "fst (start env domain) = Inr (PBool (lookupByName env domain \<and> dom_create env domain))"
    if "conn_close env 0"
    by (rule start_connected [OF assms that])
  show "fst (virsh_list env search match state) = Inr (PBool False)"
    if "state_code state = Some code \<and> (listAllDomains env code = None \<or> \<not> conn_close env 0)"
    using that virsh_list_listing_fails [OF assms, of state code search match] by blast
  show "fst (shutdown_matching env search match force) = Inr (PBool False)"
    if "listAllDomains env 0 = None \<or> (\<exists>ds. listAllDomains env 0 = Some ds \<and> None \<in> set ds)"
    unfolding shutdown_matching_def by (rule for_matching_listing_fails [OF assms that])
  show "fst (start_matching env search match sleep_secs) = Inr (PBool False)"
    if "listAllDomains env 0 = None \<or> (\<exists>ds. listAllDomains env 0 = Some ds \<and> None \<in> set ds)"
    unfolding start_matching_def by (rule for_matching_listing_fails [OF assms that])
  show "fst (shutdown_matching env search match force) = Inr (PList L)"
    if "listAllDomains env 0 = Some (map Some L) \<and> (\<forall>n\<in>set L. search match n \<noteq> None) \<and>
        conn_close env 0"
    unfolding shutdown_matching_def
    using that for_matching_returns_names [OF assms, of L search match "stop_call force"] by blast
  show "fst (start_matching env search match sleep_secs) = Inr (PList L)"
    if "listAllDomains env 0 = Some (map Some L) \<and> (\<forall>n\<in>set L. search match n \<noteq> None) \<and>
        conn_close env 0"
    unfolding start_matching_def
    using that for_matching_returns_names [OF assms, of L search match Create] by blast
qed

text \<open>
  When \<^verbatim>\<open>libvirt.open\<close> returns \<^verbatim>\<open>None\<close>, each of the six calls ends in \<^verbatim>\<open>exit(1)\<close>: through
  \<^verbatim>\<open>_connect_to_libvirt\<close>, or, for \<^verbatim>\<open>list\<close> with an unknown state, through its own
  \<^verbatim>\<open>exit(1)\<close> before that.
\<close>

lemma unconnected_wrapper_exits:
  assumes "lv_open env = OpenNone"
  shows
    "fst (reboot env domain) = Inl (SystemExit 1) \<and>
     fst (shutdown env domain force) = Inl (SystemExit 1) \<and>
     fst (start env domain) = Inl (SystemExit 1) \<and>
     fst (virsh_list env search match state) = Inl (SystemExit 1) \<and>
     fst (shutdown_matching env search match force) = Inl (SystemExit 1) \<and>
     fst (start_matching env search match sleep_secs) = Inl (SystemExit 1)"
  using assms
  by (simp add: reboot_def shutdown_def start_def virsh_list_def list_vms_def
        shutdown_matching_def start_matching_def for_matching_def connect_to_libvirt_def
        split: option.splits)

text \<open>
  C6, amended. With the connection open: \<^verbatim>\<open>reboot\<close> and \<^verbatim>\<open>shutdown\<close> return \<^verbatim>\<open>True\<close> when the
  lookup, the lifecycle call and \<^verbatim>\<open>conn.close()\<close> all succeed and \<^verbatim>\<open>False\<close> otherwise;
  \<^verbatim>\<open>start\<close> returns \<^verbatim>\<open>True\<close> when the lookup and \<^verbatim>\<open>create\<close> succeed and \<^verbatim>\<open>False\<close>
  otherwise, provided \<^verbatim>\<open>conn.close()\<close> succeeds; \<^verbatim>\<open>list\<close>, for a valid state, returns
  \<^verbatim>\<open>False\<close> when listing the domains or closing the connection fails; \<^verbatim>\<open>shutdown_matching\<close>
  and \<^verbatim>\<open>start_matching\<close> return \<^verbatim>\<open>False\<close> when listing the domains or reading a name fails,
  and otherwise, when the pattern compiles and the connection closes, the names of all
  domains, whether the lookups and lifecycle calls on the matching domains succeed or fail.
  When \<^verbatim>\<open>libvirt.open\<close> returns \<^verbatim>\<open>None\<close>, each of the six calls ends the process through
  \<^verbatim>\<open>exit(1)\<close>.
\<close>

theorem virsh_wrapper_failures:
  "(lv_open env = OpenConn \<longrightarrow>
     fst (reboot env domain)
       = Inr (PBool (lookupByName env domain \<and> dom_reboot env domain \<and> conn_close env 0)) \<and>
     fst (shutdown env domain force)
       = Inr (PBool (lookupByName env domain \<and> stop_ok env force domain \<and> conn_close env 0)) \<and>
     (conn_close env 0 \<longrightarrow>
        fst (start env domain) = Inr (PBool (lookupByName env domain \<and> dom_create env domain))) \<and>
     (state_code state = Some code \<and> (listAllDomains env code = None \<or> \<not> conn_close env 0) \<longrightarrow>
        fst (virsh_list env search match state) = Inr (PBool False)) \<and>
     (listAllDomains env 0 = None \<or> (\<exists>ds. listAllDomains env 0 = Some ds \<and> None \<in> set ds) \<longrightarrow>
        fst (shutdown_matching env search match force) = Inr (PBool False) \<and>
        fst (start_matching env search match sleep_secs) = Inr (PBool False)) \<and>
     (listAllDomains env 0 = Some (map Some L) \<and> (\<forall>n\<in>set L. search match n \<noteq> None) \<and>
      conn_close env 0 \<longrightarrow>
        fst (shutdown_matching env search match force) = Inr (PList L) \<and>
        fst (start_matching env search match sleep_secs) = Inr (PList L))) \<and>
   (lv_open env = OpenNone \<longrightarrow>
     fst (reboot env domain) = Inl (SystemExit 1) \<and>
     fst (shutdown env domain force) = Inl (SystemExit 1) \<and>
     fst (start env domain) = Inl (SystemExit 1) \<and>
     fst (virsh_list env search match state) = Inl (SystemExit 1) \<and>
     fst (shutdown_matching env search match force) = Inl (SystemExit 1) \<and>
     fst (start_matching env search match sleep_secs) = Inl (SystemExit 1))"
proof (rule conjI)
  show "lv_open env = OpenConn \<longrightarrow>
     fst (reboot env domain)
       = Inr (PBool (lookupByName env domain \<and> dom_reboot env domain \<and> conn_close env 0)) \<and>
     fst (shutdown env domain force)
       = Inr (PBool (lookupByName env domain \<and> stop_ok env force domain \<and> conn_close env 0)) \<and>
     (conn_close env 0 \<longrightarrow>
        fst (start env domain) = Inr (PBool (lookupByName env domain \<and> dom_create env domain))) \<and>
     (state_code state = Some code \<and> (listAllDomains env code = None \<or> \<not> conn_close env 0) \<longrightarrow>
        fst (virsh_list env search match state) = Inr (PBool False)) \<and>
     (listAllDomains env 0 = None \<or> (\<exists>ds. listAllDomains env 0 = Some ds \<and> None \<in> set ds) \<longrightarrow>
        fst (shutdown_matching env search match force) = Inr (PBool False) \<and>
        fst (start_matching env search match sleep_secs) = Inr (PBool False)) \<and>
     (listAllDomains env 0 = Some (map Some L) \<and> (\<forall>n\<in>set L. search match n \<noteq> None) \<and>
      conn_close env 0 \<longrightarrow>
        fst (shutdown_matching env search match force) = Inr (PList L) \<and>
        fst (start_matching env search match sleep_secs) = Inr (PList L))"
    by (rule impI) (rule connected_wrapper_results)
  show "lv_open env = OpenNone \<longrightarrow>
     fst (reboot env domain) = Inl (SystemExit 1) \<and>
     fst (shutdown env domain force) = Inl (SystemExit 1) \<and>
     fst (start env domain) = Inl (SystemExit 1) \<and>
     fst (virsh_list env search match state) = Inl (SystemExit 1) \<and>
     fst (shutdown_matching env search match force) = Inl (SystemExit 1) \<and>
     fst (start_matching env search match sleep_secs) = Inl (SystemExit 1)"
    by (rule impI) (rule unconnected_wrapper_exits)
qed

theorem virsh_wrapper_failures_witness:
  "fst (reboot \<lparr>lv_open = OpenConn, listAllDomains = (\<lambda>code. None),
            lookupByName = (\<lambda>n. False), dom_reboot = (\<lambda>n. False), dom_destroy = (\<lambda>n. False),
            dom_shutdown = (\<lambda>n. False), dom_create = (\<lambda>n. False), conn_close = (\<lambda>k. True)\<rparr>
          ''vm1'') = Inr (PBool False) \<and>
   fst (shutdown \<lparr>lv_open = OpenConn, listAllDomains = (\<lambda>code. None),
            lookupByName = (\<lambda>n. False), dom_reboot = (\<lambda>n. False), dom_destroy = (\<lambda>n. False),
            dom_shutdown = (\<lambda>n. False), dom_create = (\<lambda>n. False), conn_close = (\<lambda>k. True)\<rparr>
          ''vm1'' (PBool True)) = Inr (PBool False) \<and>
   fst (start \<lparr>lv_open = OpenConn, listAllDomains = (\<lambda>code. None),
            lookupByName = (\<lambda>n. False), dom_reboot = (\<lambda>n. False), dom_destroy = (\<lambda>n. False),
            dom_shutdown = (\<lambda>n. False), dom_create = (\<lambda>n. False), conn_close = (\<lambda>k. True)\<rparr>
          ''vm1'') = Inr (PBool False) \<and>
   state_code ''all'' = Some 0 \<and>
   fst (virsh_list \<lparr>lv_open = OpenConn, listAllDomains = (\<lambda>code. None),
            lookupByName = (\<lambda>n. False), dom_reboot = (\<lambda>n. False), dom_destroy = (\<lambda>n. False),
            dom_shutdown = (\<lambda>n. False), dom_create = (\<lambda>n. False), conn_close = (\<lambda>k. True)\<rparr>
          caret_word_search ''^web'' ''all'') = Inr (PBool False) \<and>
   fst (shutdown_matching \<lparr>lv_open = OpenConn, listAllDomains = (\<lambda>code. None),
            lookupByName = (\<lambda>n. False), dom_reboot = (\<lambda>n. False), dom_destroy = (\<lambda>n. False),
            dom_shutdown = (\<lambda>n. False), dom_create = (\<lambda>n. False), conn_close = (\<lambda>k. True)\<rparr>
          caret_word_search ''^web'' (PBool True)) = Inr (PBool False) \<and>
   fst (start_matching \<lparr>lv_open = OpenConn, listAllDomains = (\<lambda>code. None),
            lookupByName = (\<lambda>n. False), dom_reboot = (\<lambda>n. False), dom_destroy = (\<lambda>n. False),
            dom_shutdown = (\<lambda>n. False), dom_create = (\<lambda>n. False), conn_close = (\<lambda>k. True)\<rparr>
          caret_word_search ''^web'' 1) = Inr (PBool False) \<and>
   fst (shutdown_matching \<lparr>lv_open = OpenConn,
            listAllDomains = (\<lambda>code. Some (map Some [''web1'', ''db1''])),
            lookupByName = (\<lambda>n. False), dom_reboot = (\<lambda>n. False), dom_destroy = (\<lambda>n. False),
            dom_shutdown = (\<lambda>n. False), dom_create = (\<lambda>n. False), conn_close = (\<lambda>k. True)\<rparr>
          caret_word_search ''^web'' (PBool True)) = Inr (PList [''web1'', ''db1'']) \<and>
   fst (start_matching \<lparr>lv_open = OpenConn,
            listAllDomains = (\<lambda>code. Some (map Some [''web1'', ''db1''])),
            lookupByName = (\<lambda>n. False), dom_reboot = (\<lambda>n. False), dom_destroy = (\<lambda>n. False),
            dom_shutdown = (\<lambda>n. False), dom_create = (\<lambda>n. False), conn_close = (\<lambda>k. True)\<rparr>
          caret_word_search ''^web'' 1) = Inr (PList [''web1'', ''db1'']) \<and>
   fst (reboot \<lparr>lv_open = OpenNone, listAllDomains = (\<lambda>code. Some []),
            lookupByName = (\<lambda>n. True), dom_reboot = (\<lambda>n. True), dom_destroy = (\<lambda>n. True),
            dom_shutdown = (\<lambda>n. True), dom_create = (\<lambda>n. True), conn_close = (\<lambda>k. True)\<rparr>
          ''vm1'') = Inl (SystemExit 1) \<and>
   fst (shutdown \<lparr>lv_open = OpenNone, listAllDomains = (\<lambda>code. Some []),
            lookupByName = (\<lambda>n. True), dom_reboot = (\<lambda>n. True), dom_destroy = (\<lambda>n. True),
            dom_shutdown = (\<lambda>n. True), dom_create = (\<lambda>n. True), conn_close = (\<lambda>k. True)\<rparr>
          ''vm1'' (PBool True)) = Inl (SystemExit 1) \<and>
   fst (start \<lparr>lv_open = OpenNone, listAllDomains = (\<lambda>code. Some []),
            lookupByName = (\<lambda>n. True), dom_reboot = (\<lambda>n. True), dom_destroy = (\<lambda>n. True),
            dom_shutdown = (\<lambda>n. True), dom_create = (\<lambda>n. True), conn_close = (\<lambda>k. True)\<rparr>
          ''vm1'') = Inl (SystemExit 1) \<and>
   fst (virsh_list \<lparr>lv_open = OpenNone, listAllDomains = (\<lambda>code. Some []),
            lookupByName = (\<lambda>n. True), dom_reboot = (\<lambda>n. True), dom_destroy = (\<lambda>n. True),
            dom_shutdown = (\<lambda>n. True), dom_create = (\<lambda>n. True), conn_close = (\<lambda>k. True)\<rparr>
          caret_word_search ''^web'' ''all'') = Inl (SystemExit 1) \<and>
   fst (shutdown_matching \<lparr>lv_open = OpenNone, listAllDomains = (\<lambda>code. Some []),
            lookupByName = (\<lambda>n. True), dom_reboot = (\<lambda>n. True), dom_destroy = (\<lambda>n. True),
            dom_shutdown = (\<lambda>n. True), dom_create = (\<lambda>n. True), conn_close = (\<lambda>k. True)\<rparr>
          caret_word_search ''^web'' (PBool True)) = Inl (SystemExit 1) \<and>
   fst (start_matching \<lparr>lv_open = OpenNone, listAllDomains = (\<lambda>code. Some []),
            lookupByName = (\<lambda>n. True), dom_reboot = (\<lambda>n. True), dom_destroy = (\<lambda>n. True),
            dom_shutdown = (\<lambda>n. True), dom_create = (\<lambda>n. True), conn_close = (\<lambda>k. True)\<rparr>
          caret_word_search ''^web'' 1) = Inl (SystemExit 1)"
proof -
  let ?e1 = "\<lparr>lv_open = OpenConn, listAllDomains = (\<lambda>code. None),
            lookupByName = (\<lambda>n. False), dom_reboot = (\<lambda>n. False), dom_destroy = (\<lambda>n. False),
            dom_shutdown = (\<lambda>n. False), dom_create = (\<lambda>n. False), conn_close = (\<lambda>k. True)\<rparr>"
  let ?e2 = "\<lparr>lv_open = OpenConn,
            listAllDomains = (\<lambda>code. Some (map Some [''web1'', ''db1''])),
            lookupByName = (\<lambda>n. False), dom_reboot = (\<lambda>n. False), dom_destroy = (\<lambda>n. False),
            dom_shutdown = (\<lambda>n. False), dom_create = (\<lambda>n. False), conn_close = (\<lambda>k. True)\<rparr>"
  let ?e3 = "\<lparr>lv_open = OpenNone, listAllDomains = (\<lambda>code. Some []),
            lookupByName = (\<lambda>n. True), dom_reboot = (\<lambda>n. True), dom_destroy = (\<lambda>n. True),
            dom_shutdown = (\<lambda>n. True), dom_create = (\<lambda>n. True), conn_close = (\<lambda>k. True)\<rparr>"
  have o1: "lv_open ?e1 = OpenConn" and o2: "lv_open ?e2 = OpenConn"
    and o3: "lv_open ?e3 = OpenNone" by simp_all
  have s: "state_code ''all'' = Some 0" by (simp add: state_code_def)
  have l1: "listAllDomains ?e1 0 = None" and c1: "conn_close ?e1 0" by simp_all
  have l2: "listAllDomains ?e2 0 = Some (map Some [''web1'', ''db1''])"
    and c2: "conn_close ?e2 0" by simp_all
  have v: "\<forall>n\<in>set [''web1'', ''db1'']. caret_word_search ''^web'' n \<noteq> None"
    by (simp add: caret_word_search_def is_alnum_def)
  have f1: "\<not> lookupByName ?e1 ''vm1''" by simp
  note t1 = virsh_wrapper_failures
              [where env = ?e1 and domain = "''vm1''" and force = "PBool True"
                 and state = "''all''" and code = 0 and search = caret_word_search
                 and match = "''^web''" and sleep_secs = 1 and L = "[]", THEN conjunct1,
               rule_format, OF o1]
  note t2 = virsh_wrapper_failures
              [where env = ?e2 and domain = "''vm1''" and force = "PBool True"
                 and state = "''all''" and code = 0 and search = caret_word_search
                 and match = "''^web''" and sleep_secs = 1 and L = "[''web1'', ''db1'']",
               THEN conjunct1, rule_format, OF o2]
  note t3 = virsh_wrapper_failures
              [where env = ?e3 and domain = "''vm1''" and force = "PBool True"
                 and state = "''all''" and code = 0 and search = caret_word_search
                 and match = "''^web''" and sleep_secs = 1 and L = "[]", THEN conjunct2,
               rule_format, OF o3]
  from t1 f1 have a: "fst (reboot ?e1 ''vm1'') = Inr (PBool False)" by simp
  from t1 f1 have b: "fst (shutdown ?e1 ''vm1'' (PBool True)) = Inr (PBool False)" by simp
  from t1 f1 c1 have c: "fst (start ?e1 ''vm1'') = Inr (PBool False)" by simp
  from t1 s l1 have d: "fst (virsh_list ?e1 caret_word_search ''^web'' ''all'') = Inr (PBool False)"
    by blast
  from t1 l1 have e: "fst (shutdown_matching ?e1 caret_word_search ''^web'' (PBool True))
                        = Inr (PBool False)" by blast
  from t1 l1 have f: "fst (start_matching ?e1 caret_word_search ''^web'' 1) = Inr (PBool False)"
    by blast
  from t2 l2 c2 v have g: "fst (shutdown_matching ?e2 caret_word_search ''^web'' (PBool True))
                        = Inr (PList [''web1'', ''db1''])" by blast
  from t2 l2 c2 v have h: "fst (start_matching ?e2 caret_word_search ''^web'' 1)
                        = Inr (PList [''web1'', ''db1''])" by blast
  from a b c s d e f g h t3 show ?thesis by blast
qed

section \<open>Properties of time\_functions.py\<close>

lemma py_int_of_int: "py_int (of_int n) = n"
  by (simp add: py_int_def)

lemma py_int_of_int_diff: "py_int (of_int a - of_int b) = a - b"
  using py_int_of_int [of "a - b"] by simp

text \<open>
  C7 (\<^verbatim>\<open>get_utc_epoch_time\<close>). The result is \<^verbatim>\<open>time.mktime\<close> of the time tuple of the UTC
  reading, truncated towards zero: the computation of \<^verbatim>\<open>get_local_epoch_time\<close> with the UTC
  reading in place of the local one. When \<^verbatim>\<open>mktime\<close> is the local conversion of a zone
  \<open>utcoff\<close> seconds east of UTC, the result is the UTC conversion of the UTC tuple minus
  \<open>utcoff\<close>, so it is not the UTC conversion unless \<open>utcoff\<close> is zero; and when the local
  reading is \<open>utcoff\<close> seconds ahead of the UTC reading, \<^verbatim>\<open>get_local_epoch_time\<close> returns the
  UTC conversion of the UTC tuple and \<^verbatim>\<open>get_utc_epoch_time\<close> a value \<open>utcoff\<close> seconds less.
\<close>

theorem get_utc_epoch_time_local_conversion:
  "get_utc_epoch_time lib
     = (case mktime lib (timetuple lib (datetime_utcnow lib)) of
          None \<Rightarrow> Inl OverflowError
        | Some t \<Rightarrow> Inr (if 0 \<le> t then \<lfloor>t\<rfloor> else \<lceil>t\<rceil>)) \<and>
   get_utc_epoch_time lib = get_local_epoch_time (lib\<lparr>datetime_now := datetime_utcnow lib\<rparr>) \<and>
   (mktime lib = local_mktime timegm utcoff \<longrightarrow>
      get_utc_epoch_time lib = Inr (timegm (timetuple lib (datetime_utcnow lib)) - utcoff) \<and>
      get_local_epoch_time lib = Inr (timegm (timetuple lib (datetime_now lib)) - utcoff) \<and>
      (utcoff \<noteq> 0 \<longrightarrow>
         get_utc_epoch_time lib \<noteq> Inr (timegm (timetuple lib (datetime_utcnow lib)))) \<and>
      (timegm (timetuple lib (datetime_now lib))
         = timegm (timetuple lib (datetime_utcnow lib)) + utcoff \<longrightarrow>
         get_local_epoch_time lib = Inr (timegm (timetuple lib (datetime_utcnow lib))) \<and>
         get_utc_epoch_time lib
           = Inr (timegm (timetuple lib (datetime_utcnow lib)) - utcoff)))"
proof (intro conjI impI)
  show "get_utc_epoch_time lib
     = (case mktime lib (timetuple lib (datetime_utcnow lib)) of
          None \<Rightarrow> Inl OverflowError
        | Some t \<Rightarrow> Inr (if 0 \<le> t then \<lfloor>t\<rfloor> else \<lceil>t\<rceil>))"
    by (simp add: get_utc_epoch_time_def py_int_def split: option.splits)
  show "get_utc_epoch_time lib
          = get_local_epoch_time (lib\<lparr>datetime_now := datetime_utcnow lib\<rparr>)"
    by (simp add: get_utc_epoch_time_def get_local_epoch_time_def)
next
  assume m: "mktime lib = local_mktime timegm utcoff"
  show u: "get_utc_epoch_time lib = Inr (timegm (timetuple lib (datetime_utcnow lib)) - utcoff)"
    by (simp add: get_utc_epoch_time_def m local_mktime_def py_int_of_int_diff)
  show l: "get_local_epoch_time lib = Inr (timegm (timetuple lib (datetime_now lib)) - utcoff)"
    by (simp add: get_local_epoch_time_def m local_mktime_def py_int_of_int_diff)
  show "get_utc_epoch_time lib \<noteq> Inr (timegm (timetuple lib (datetime_utcnow lib)))"
    if "utcoff \<noteq> 0"
    using that by (simp add: u)
  show "get_local_epoch_time lib = Inr (timegm (timetuple lib (datetime_utcnow lib)))"
    if "timegm (timetuple lib (datetime_now lib))
         = timegm (timetuple lib (datetime_utcnow lib)) + utcoff"
    using that by (simp add: l)
  show "get_utc_epoch_time lib = Inr (timegm (timetuple lib (datetime_utcnow lib)) - utcoff)"
    by (rule u)
qed

theorem get_utc_epoch_time_local_conversion_witness:
  "get_utc_epoch_time
     \<lparr>datetime_now = (1500007200::int), datetime_utcnow = 1500000000,
      timetuple = (\<lambda>d. d), mktime = local_mktime (\<lambda>tt. tt) 7200\<rparr>
     = Inr 1499992800 \<and>
   get_local_epoch_time
     \<lparr>datetime_now = (1500007200::int), datetime_utcnow = 1500000000,
      timetuple = (\<lambda>d. d), mktime = local_mktime (\<lambda>tt. tt) 7200\<rparr>
     = Inr 1500000000 \<and>
   get_utc_epoch_time
     \<lparr>datetime_now = (1500007200::int), datetime_utcnow = 1500000000,
      timetuple = (\<lambda>d. d), mktime = local_mktime (\<lambda>tt. tt) 7200\<rparr>
     \<noteq> Inr 1500000000 \<and>
   get_utc_epoch_time
     \<lparr>datetime_now = (0::int), datetime_utcnow = 0,
      timetuple = (\<lambda>d. d), mktime = (\<lambda>tt. Some (- 3 / 2))\<rparr>
     = Inr (- 1) \<and>
   get_utc_epoch_time
     \<lparr>datetime_now = (0::int), datetime_utcnow = 0,
      timetuple = (\<lambda>d. d), mktime = (\<lambda>tt. Some (7 / 2))\<rparr>
     = Inr 3 \<and>
   get_utc_epoch_time
     \<lparr>datetime_now = (0::int), datetime_utcnow = 0,
      timetuple = (\<lambda>d. d), mktime = (\<lambda>tt. None)\<rparr>
     = Inl OverflowError"
proof -
  let ?lib = "\<lparr>datetime_now = (1500007200::int), datetime_utcnow = 1500000000,
      timetuple = (\<lambda>d. d), mktime = local_mktime (\<lambda>tt. tt) 7200\<rparr>"
  have m: "mktime ?lib = local_mktime (\<lambda>tt. tt) 7200" by simp
  have n: "(7200::int) \<noteq> 0" by simp
  have d: "(\<lambda>tt. tt) (timetuple ?lib (datetime_now ?lib))
             = (\<lambda>tt. tt) (timetuple ?lib (datetime_utcnow ?lib)) + (7200::int)" by simp
  note t = get_utc_epoch_time_local_conversion
             [where lib = ?lib and timegm = "\<lambda>tt. tt" and utcoff = 7200,
              THEN conjunct2, THEN conjunct2, rule_format, OF m]
  from t n d have a: "get_utc_epoch_time ?lib = Inr 1499992800"
    and b: "get_local_epoch_time ?lib = Inr 1500000000"
    and c: "get_utc_epoch_time ?lib \<noteq> Inr 1500000000"
    by simp_all
  have e: "get_utc_epoch_time \<lparr>datetime_now = (0::int), datetime_utcnow = 0,
      timetuple = (\<lambda>d. d), mktime = (\<lambda>tt. Some (- 3 / 2))\<rparr> = Inr (- 1)"
    using get_utc_epoch_time_local_conversion
            [where lib = "\<lparr>datetime_now = (0::int), datetime_utcnow = 0,
               timetuple = (\<lambda>d. d), mktime = (\<lambda>tt. Some (- 3 / 2))\<rparr>", THEN conjunct1]
    by simp
  have f: "get_utc_epoch_time \<lparr>datetime_now = (0::int), datetime_utcnow = 0,
      timetuple = (\<lambda>d. d), mktime = (\<lambda>tt. Some (7 / 2))\<rparr> = Inr 3"
    using get_utc_epoch_time_local_conversion
            [where lib = "\<lparr>datetime_now = (0::int), datetime_utcnow = 0,
               timetuple = (\<lambda>d. d), mktime = (\<lambda>tt. Some (7 / 2))\<rparr>", THEN conjunct1]
    by simp
  have g: "get_utc_epoch_time \<lparr>datetime_now = (0::int), datetime_utcnow = 0,
      timetuple = (\<lambda>d. d), mktime = (\<lambda>tt. None)\<rparr> = Inl OverflowError"
    using get_utc_epoch_time_local_conversion
            [where lib = "\<lparr>datetime_now = (0::int), datetime_utcnow = 0,
               timetuple = (\<lambda>d. d), mktime = (\<lambda>tt. None)\<rparr>", THEN conjunct1]
    by simp
  from a b c e f g show ?thesis by blast
qed

end
